theory Spec2Isabelle
  imports Complex_Main "HOL-Library.Word"
begin

unbundle bit_operations_syntax

section \<open>Snapshot trees and Python dictionaries\<close>

text \<open>
  The program represents a tree node as \<^verbatim>\<open>None\<close> (the path does not exist), a pair of two
  integers \<^verbatim>\<open>(atime, mtime)\<close> (a regular file) or a \<^verbatim>\<open>dict\<close> from names to nodes (a
  directory, whose own pair of timestamps sits under the reserved key \<^verbatim>\<open>"."\<close>). A \<^verbatim>\<open>dict\<close>
  keeps its keys in insertion order and holds each key once, so it is modelled as an
  association list; the three operations below are the ones the program uses.
\<close>

datatype tree = TNone | TTuple int int | TDict "(string \<times> tree) list"

type_synonym pydict = "(string \<times> tree) list"

text \<open>\<^verbatim>\<open>d.get(k, None)\<close> and the lookup half of \<^verbatim>\<open>d.pop(k, None)\<close>.\<close>

fun dict_get :: "string \<Rightarrow> pydict \<Rightarrow> tree option" where
  "dict_get k [] = None"
| "dict_get k ((k', v) # d) = (if k = k' then Some v else dict_get k d)"

text \<open>The removal half of \<^verbatim>\<open>d.pop(k)\<close>.\<close>

fun dict_del :: "string \<Rightarrow> pydict \<Rightarrow> pydict" where
  "dict_del k [] = []"
| "dict_del k ((k', v) # d) = (if k = k' then d else (k', v) # dict_del k d)"

text \<open>\<^verbatim>\<open>d[k] = v\<close>: an existing key keeps its position, a new key goes last.\<close>

fun dict_set :: "string \<Rightarrow> tree \<Rightarrow> pydict \<Rightarrow> pydict" where
  "dict_set k v [] = [(k, v)]"
| "dict_set k v ((k', v') # d) = (if k = k' then (k, v) # d else (k', v') # dict_set k v d)"

fun tsize :: "tree \<Rightarrow> nat" where
  "tsize TNone = 0"
| "tsize (TTuple a m) = 0"
| "tsize (TDict d) = Suc (sum_list (map (\<lambda>kv. Suc (tsize (snd kv))) d))"

definition isize :: "pydict \<Rightarrow> nat" where
  "isize d = sum_list (map (\<lambda>kv. Suc (tsize (snd kv))) d)"


section \<open>Errors and the log\<close>

text \<open>
  Every exception the modelled code can raise is a value. \<open>SystemExit\<close> is what
  \<^verbatim>\<open>criticalLogExit\<close> raises. The calls to \<^verbatim>\<open>logging\<close> are collected, in order, in a list
  that every function returns next to its result (also when it raises).
\<close>

datatype error = KeyError | SystemExit | AttributeError | TypeError | NotImplementedError
  | FileNotFoundError | NotADirectoryError | PermissionError | ValueError

datatype level = DEBUG | INFO | WARNING | ERROR | CRITICAL

type_synonym log = "(level \<times> string) list"

type_synonym 'a result = "(error + 'a) \<times> log"

text \<open>\<^verbatim>\<open>criticalLogExit(message)\<close> of \<^verbatim>\<open>SAOLogging.py\<close>: two critical records, then \<^verbatim>\<open>SystemExit\<close>.\<close>

definition criticalLogExit :: "string \<Rightarrow> 'a result" where
  "criticalLogExit message = (Inl SystemExit, [(CRITICAL, message), (CRITICAL, ''Exiting'')])"

definition quoted :: "string \<Rightarrow> string" where
  "quoted s = [CHR 0x27] @ s @ [CHR 0x27]"

section \<open>The tree differ\<close>

text \<open>
  The arguments \<^verbatim>\<open>diffTrees\<close> passes unchanged to every recursive call. \<open>fnmatch\<close> stands for
  the standard library's \<^verbatim>\<open>fnmatch.fnmatch(name, pattern)\<close>; the two join functions are
  the \<^verbatim>\<open>joinPaths\<close> methods of the two file systems.
\<close>

record ctx =
  fnmatch :: "string \<Rightarrow> string \<Rightarrow> bool"
  destinationExcludePatterns :: "string list"
  pathJoinFunction_source :: "string \<Rightarrow> string \<Rightarrow> string"
  pathJoinFunction_destination :: "string \<Rightarrow> string \<Rightarrow> string"
  folderFileOverwriteError :: bool

text \<open>
  What a call of \<^verbatim>\<open>diffTrees\<close> leaves behind: the five trees it returns and, because it
  pops keys from the dictionaries it is given, the two argument objects as they are after
  the call.
\<close>

record diff =
  delete :: tree
  copy :: tree
  excluded_source :: tree
  unaccounted_destination :: tree
  excluded_destination :: tree
  source_after :: tree
  destination_after :: tree

text \<open>The loop at the head of \<^verbatim>\<open>diffTrees\<close> that sets \<^verbatim>\<open>exclude\<close>.\<close>

fun is_excluded :: "(string \<Rightarrow> string \<Rightarrow> bool) \<Rightarrow> string \<Rightarrow> string list \<Rightarrow> bool" where
  "is_excluded m path_destination [] = False"
| "is_excluded m path_destination (destinationExcludePattern # ps) =
     (if m path_destination destinationExcludePattern then True
      else is_excluded m path_destination ps)"

definition exclude :: "ctx \<Rightarrow> string \<Rightarrow> bool" where
  "exclude c path_destination =
     is_excluded (fnmatch c) path_destination (destinationExcludePatterns c)"

text \<open>\<^verbatim>\<open>out[key] = ...\<close> for every child, in the order of the loop.\<close>

fun assign :: "(diff \<Rightarrow> tree) \<Rightarrow> (string \<times> diff) list \<Rightarrow> pydict \<Rightarrow> pydict" where
  "assign f [] out = out"
| "assign f ((key, r) # rs) out = assign f rs (dict_set key (f r) out)"

text \<open>The destination dictionary after the \<^verbatim>\<open>destination.pop(key, None)\<close> of every source key.\<close>

fun pop_keys :: "string list \<Rightarrow> pydict \<Rightarrow> pydict" where
  "pop_keys [] d = d"
| "pop_keys (key # keys) d = pop_keys keys (dict_del key d)"

definition children_after :: "(diff \<Rightarrow> tree) \<Rightarrow> (string \<times> diff) list \<Rightarrow> pydict" where
  "children_after f rs = map (\<lambda>kr. (fst kr, f (snd kr))) rs"

definition plain :: "tree \<Rightarrow> tree \<Rightarrow> diff" where
  "plain source destination =
     \<lparr>delete = TNone, copy = TNone, excluded_source = TNone,
      unaccounted_destination = TNone, excluded_destination = TNone,
      source_after = source, destination_after = destination\<rparr>"

definition dot :: pydict where
  "dot = [(''.'', TNone)]"

lemma isize_Nil [simp]: "isize [] = 0"
  by (simp add: isize_def)

lemma isize_Cons [simp]: "isize ((k, v) # d) = Suc (tsize v + isize d)"
  by (simp add: isize_def)

lemma tsize_TDict: "tsize (TDict d) = Suc (isize d)"
  by (simp add: isize_def)

lemma isize_dict_del: "isize (dict_del k d) \<le> isize d"
  by (induction d) auto

lemma isize_pop_keys: "isize (pop_keys ks d) \<le> isize d"
proof (induction ks arbitrary: d)
  case Nil
  show ?case by simp
next
  case (Cons k ks)
  have "isize (pop_keys ks (dict_del k d)) \<le> isize (dict_del k d)" by (rule Cons.IH)
  also have "\<dots> \<le> isize d" by (rule isize_dict_del)
  finally show ?case by simp
qed

lemma tsize_dict_get: "dict_get k d = Some v \<Longrightarrow> tsize v < isize d"
  by (induction d) (auto split: if_splits)

definition child_of :: "string \<Rightarrow> pydict \<Rightarrow> tree" where
  "child_of key d = (case dict_get key d of None \<Rightarrow> TNone | Some v \<Rightarrow> v)"

lemma tsize_child_of: "tsize (child_of k d) \<le> isize d"
  using tsize_dict_get [of k d] by (auto simp: child_of_def split: option.splits intro: less_imp_le)

lemma isize_dict_del_less0: "isize (dict_del k d) < Suc (isize d)"
  using isize_dict_del [of k d] by simp

lemma isize_dict_del_less1: "isize (dict_del k d) < Suc (Suc (isize d))"
  using isize_dict_del [of k d] by simp

lemma isize_dict_del_less2: "isize (dict_del k d) < Suc (isize d + n)"
  using isize_dict_del [of k d] by simp

lemma isize_dict_del_less3: "isize (dict_del k d) < Suc (n + isize d)"
  using isize_dict_del [of k d] by simp

lemma isize_dict_del_pop_keys_less: "isize (dict_del k (pop_keys ks d)) < Suc (Suc (n + isize d))"
  using isize_dict_del [of k "pop_keys ks d"] isize_pop_keys [of ks d] by simp

lemma tsize_child_of_less: "tsize (child_of k d) < Suc (n + isize d)"
  using tsize_child_of [of k d] by simp

lemmas isize_less = isize_dict_del_less0 isize_dict_del_less1 isize_dict_del_less2
  isize_dict_del_less3 isize_dict_del_pop_keys_less tsize_child_of_less

function diffTrees :: "ctx \<Rightarrow> tree \<Rightarrow> tree \<Rightarrow> string \<Rightarrow> string \<Rightarrow> diff result"
  and loop_destination :: "ctx \<Rightarrow> pydict \<Rightarrow> string \<Rightarrow> string \<Rightarrow> (string \<times> diff) list result"
  and loop_source :: "ctx \<Rightarrow> pydict \<Rightarrow> string \<Rightarrow> string \<Rightarrow> (string \<times> diff) list result"
  and loop_both :: "ctx \<Rightarrow> pydict \<Rightarrow> pydict \<Rightarrow> string \<Rightarrow> string \<Rightarrow> (string \<times> diff) list result"
where
  "diffTrees c TNone TNone path_source path_destination =
     (Inr (plain TNone TNone), [])"
| "diffTrees c TNone (TTuple a m) path_source path_destination =
     (if exclude c path_destination
      then (Inr ((plain TNone (TTuple a m))\<lparr>excluded_destination := TTuple a m\<rparr>), [])
      else (Inr ((plain TNone (TTuple a m))\<lparr>unaccounted_destination := TTuple a m\<rparr>), []))"
| "diffTrees c TNone (TDict d) path_source path_destination =
     (if exclude c path_destination
      then (Inr ((plain TNone (TDict d))
              \<lparr>delete := TDict dot, unaccounted_destination := TDict dot,
               excluded_destination := TDict d\<rparr>), [])
      else (case dict_get ''.'' d of
              None \<Rightarrow> (Inl KeyError, [])
            | Some self \<Rightarrow>
               (case loop_destination c (dict_del ''.'' d) path_source path_destination of
                  (Inl e, l) \<Rightarrow> (Inl e, l)
                | (Inr rs, l) \<Rightarrow>
                    (Inr \<lparr>delete = TDict (assign delete rs dot), copy = TNone,
                          excluded_source = TNone,
                          unaccounted_destination =
                            TDict (assign unaccounted_destination rs [(''.'', self)]),
                          excluded_destination = TDict (assign excluded_destination rs dot),
                          source_after = TNone,
                          destination_after = TDict (children_after destination_after rs)\<rparr>,
                     l))))"
| "diffTrees c (TTuple a m) TNone path_source path_destination =
     (if exclude c path_destination
      then (Inr ((plain (TTuple a m) TNone)\<lparr>excluded_source := TTuple a m\<rparr>), [])
      else (Inr ((plain (TTuple a m) TNone)\<lparr>copy := TTuple a m\<rparr>), []))"
| "diffTrees c (TTuple a m) (TTuple a' m') path_source path_destination =
     (if exclude c path_destination
      then (Inr ((plain (TTuple a m) (TTuple a' m'))
              \<lparr>excluded_source := TTuple a m, excluded_destination := TTuple a' m'\<rparr>), [])
      else if m > m'
      then (Inr ((plain (TTuple a m) (TTuple a' m'))
              \<lparr>delete := TTuple a' m', copy := TTuple a m\<rparr>), [])
      else (Inr (plain (TTuple a m) (TTuple a' m')), []))"
| "diffTrees c (TTuple a m) (TDict d) path_source path_destination =
     (if exclude c path_destination
      then (Inr ((plain (TTuple a m) (TDict d))
              \<lparr>delete := TDict dot, excluded_source := TTuple a m,
               unaccounted_destination := TDict dot, excluded_destination := TDict d\<rparr>), [])
      else if folderFileOverwriteError c
      then (case criticalLogExit ''Use --force if you are sure!'' of
              (r, l) \<Rightarrow>
               (r, (CRITICAL, ''Refusing to overwrite directory '' @ quoted path_destination
                      @ '' with file '' @ quoted path_source) # l))
      else (Inr ((plain (TTuple a m) (TDict d))
              \<lparr>delete := TDict d, copy := TTuple a m,
               unaccounted_destination := TDict dot, excluded_destination := TDict dot\<rparr>),
            [(WARNING, ''Overwriting directory '' @ quoted path_destination
                @ '' with file '' @ quoted path_source)]))"
| "diffTrees c (TDict s) TNone path_source path_destination =
     (if exclude c path_destination
      then (Inr ((plain (TDict s) TNone)\<lparr>copy := TDict dot, excluded_source := TDict s\<rparr>), [])
      else (case dict_get ''.'' s of
              None \<Rightarrow> (Inl KeyError, [])
            | Some self \<Rightarrow>
               (case loop_source c (dict_del ''.'' s) path_source path_destination of
                  (Inl e, l) \<Rightarrow> (Inl e, l)
                | (Inr rs, l) \<Rightarrow>
                    (Inr \<lparr>delete = TNone, copy = TDict (assign copy rs [(''.'', self)]),
                          excluded_source = TDict (assign excluded_source rs dot),
                          unaccounted_destination = TNone, excluded_destination = TNone,
                          source_after = TDict (children_after source_after rs),
                          destination_after = TNone\<rparr>,
                     l))))"
| "diffTrees c (TDict s) (TTuple a' m') path_source path_destination =
     (if exclude c path_destination
      then (Inr ((plain (TDict s) (TTuple a' m'))
              \<lparr>copy := TDict dot, excluded_source := TDict s, excluded_destination := TNone\<rparr>),
            [])
      else (case dict_get ''.'' s of
              None \<Rightarrow> (Inl KeyError, [])
            | Some self \<Rightarrow>
               (case loop_source c (dict_del ''.'' s) path_source path_destination of
                  (Inl e, l) \<Rightarrow> (Inl e, l)
                | (Inr rs, l) \<Rightarrow>
                    (if folderFileOverwriteError c
                     then (case criticalLogExit ''Use --force if you are sure!'' of
                             (r, l') \<Rightarrow>
                              (r, l @ (CRITICAL, ''Refusing to overwrite file ''
                                     @ quoted path_destination @ '' with directory ''
                                     @ quoted path_source) # l'))
                     else
                       (Inr \<lparr>delete = TTuple a' m', copy = TDict (assign copy rs [(''.'', self)]),
                             excluded_source = TDict (assign excluded_source rs dot),
                             unaccounted_destination = TNone, excluded_destination = TNone,
                             source_after = TDict (children_after source_after rs),
                             destination_after = TTuple a' m'\<rparr>,
                        l @ [(WARNING, ''Overwriting file '' @ quoted path_destination
                               @ '' with directory '' @ quoted path_source)])))))"
| "diffTrees c (TDict s) (TDict d) path_source path_destination =
     (if exclude c path_destination
      then (Inr ((plain (TDict s) (TDict d))
              \<lparr>delete := TDict dot, copy := TDict dot, excluded_source := TDict s,
               unaccounted_destination := TDict dot, excluded_destination := TDict d\<rparr>), [])
      else (case dict_get ''.'' s of
              None \<Rightarrow> (Inl KeyError, [])
            | Some self \<Rightarrow>
               (case loop_both c (dict_del ''.'' s) d path_source path_destination of
                  (Inl e, l) \<Rightarrow> (Inl e, l)
                | (Inr rs, l) \<Rightarrow>
                    (let d' = pop_keys (map fst (dict_del ''.'' s)) d in
                     case dict_get ''.'' d' of
                       None \<Rightarrow> (Inl KeyError, l)
                     | Some self' \<Rightarrow>
                        (case loop_destination c (dict_del ''.'' d') path_source path_destination of
                           (Inl e, l') \<Rightarrow> (Inl e, l @ l')
                         | (Inr rs', l') \<Rightarrow>
                            (Inr \<lparr>delete = TDict (assign delete rs' (assign delete rs dot)),
                                  copy = TDict (assign copy rs dot),
                                  excluded_source = TDict (assign excluded_source rs dot),
                                  unaccounted_destination =
                                    TDict (assign unaccounted_destination rs'
                                            (assign unaccounted_destination rs dot)),
                                  excluded_destination =
                                    TDict (assign excluded_destination rs'
                                            (assign excluded_destination rs dot)),
                                  source_after = TDict (children_after source_after rs),
                                  destination_after =
                                    TDict (children_after destination_after rs')\<rparr>,
                             l @ l'))))))"
| "loop_destination c [] path_source path_destination = (Inr [], [])"
| "loop_destination c ((key, val) # items) path_source path_destination =
     (case diffTrees c TNone val
             (pathJoinFunction_source c path_source key)
             (pathJoinFunction_destination c path_destination key) of
        (Inl e, l) \<Rightarrow> (Inl e, l)
      | (Inr r, l) \<Rightarrow>
         (case loop_destination c items path_source path_destination of
            (Inl e, l') \<Rightarrow> (Inl e, l @ l')
          | (Inr rs, l') \<Rightarrow> (Inr ((key, r) # rs), l @ l')))"
| "loop_source c [] path_source path_destination = (Inr [], [])"
| "loop_source c ((key, val) # items) path_source path_destination =
     (case diffTrees c val TNone
             (pathJoinFunction_source c path_source key)
             (pathJoinFunction_destination c path_destination key) of
        (Inl e, l) \<Rightarrow> (Inl e, l)
      | (Inr r, l) \<Rightarrow>
         (case loop_source c items path_source path_destination of
            (Inl e, l') \<Rightarrow> (Inl e, l @ l')
          | (Inr rs, l') \<Rightarrow> (Inr ((key, r) # rs), l @ l')))"
| "loop_both c [] destination path_source path_destination = (Inr [], [])"
| "loop_both c ((key, val) # items) destination path_source path_destination =
     (case diffTrees c val (child_of key destination)
             (pathJoinFunction_source c path_source key)
             (pathJoinFunction_destination c path_destination key) of
        (Inl e, l) \<Rightarrow> (Inl e, l)
      | (Inr r, l) \<Rightarrow>
         (case loop_both c items (dict_del key destination) path_source path_destination of
            (Inl e, l') \<Rightarrow> (Inl e, l @ l')
          | (Inr rs, l') \<Rightarrow> (Inr ((key, r) # rs), l @ l')))"
  by pat_completeness auto

termination diffTrees
  apply (relation "measure (\<lambda>x. case x of
      Inl (Inl (c, s, d, ps, pd)) \<Rightarrow> tsize s + tsize d
    | Inl (Inr (c, items, ps, pd)) \<Rightarrow> isize items
    | Inr (Inl (c, items, ps, pd)) \<Rightarrow> isize items
    | Inr (Inr (c, items, d, ps, pd)) \<Rightarrow> isize items + isize d)")
   apply simp
  apply (simp_all add: tsize_TDict isize_less del: tsize.simps(3))
  done

section \<open>Pruning and the protection of excluded content\<close>

text \<open>
  \<^verbatim>\<open>pruneTree\<close> builds a new dictionary from the children that do not prune to \<^verbatim>\<open>None\<close>;
  \<^verbatim>\<open>returnDict or None\<close> turns the empty dictionary into \<^verbatim>\<open>None\<close>.
\<close>

function pruneTree :: "tree \<Rightarrow> tree"
  and prune_items :: "pydict \<Rightarrow> pydict \<Rightarrow> pydict"
where
  "pruneTree TNone = TNone"
| "pruneTree (TTuple a m) = TTuple a m"
| "pruneTree (TDict d) =
     (let returnDict = prune_items d [] in if returnDict = [] then TNone else TDict returnDict)"
| "prune_items [] returnDict = returnDict"
| "prune_items ((key, val) # items) returnDict =
     (let value_pruned = pruneTree val in
      if value_pruned \<noteq> TNone then prune_items items (dict_set key value_pruned returnDict)
      else prune_items items returnDict)"
  by pat_completeness auto
termination pruneTree
  apply (relation "measure (\<lambda>x. case x of
      Inl t \<Rightarrow> tsize t
    | Inr (items, returnDict) \<Rightarrow> isize items)")
     apply simp
    apply (simp_all add: tsize_TDict del: tsize.simps(3))
  done

text \<open>
  \<^verbatim>\<open>removeExludedFoldersFromUnaccountedTree\<close>. Calling \<^verbatim>\<open>.items()\<close> on a pair or on \<^verbatim>\<open>None\<close>, or
  \<^verbatim>\<open>.get\<close> on a pair, raises \<open>AttributeError\<close>.
\<close>

function removeExludedFoldersFromUnaccountedTree :: "tree \<Rightarrow> tree \<Rightarrow> error + tree"
  and remove_items :: "pydict \<Rightarrow> tree \<Rightarrow> pydict \<Rightarrow> error + pydict"
where
  "removeExludedFoldersFromUnaccountedTree unaccounted TNone = Inr unaccounted"
| "removeExludedFoldersFromUnaccountedTree TNone (TTuple a m) = Inl AttributeError"
| "removeExludedFoldersFromUnaccountedTree TNone (TDict e) = Inl AttributeError"
| "removeExludedFoldersFromUnaccountedTree (TTuple a' m') (TTuple a m) = Inl AttributeError"
| "removeExludedFoldersFromUnaccountedTree (TTuple a' m') (TDict e) = Inl AttributeError"
| "removeExludedFoldersFromUnaccountedTree (TDict u) (TTuple a m) =
     (case remove_items u (TTuple a m) [] of
        Inl err \<Rightarrow> Inl err
      | Inr unaccounted_non_excluded \<Rightarrow> Inr (TDict unaccounted_non_excluded))"
| "removeExludedFoldersFromUnaccountedTree (TDict u) (TDict e) =
     (case remove_items u (TDict e) [] of
        Inl err \<Rightarrow> Inl err
      | Inr unaccounted_non_excluded \<Rightarrow> Inr (TDict unaccounted_non_excluded))"
| "remove_items [] excluded unaccounted_non_excluded = Inr unaccounted_non_excluded"
| "remove_items ((unaccounted_key, unaccounted_value) # items) excluded unaccounted_non_excluded =
     (if unaccounted_key = ''.'' then remove_items items excluded unaccounted_non_excluded
      else (case excluded of
              TDict e \<Rightarrow>
               (case removeExludedFoldersFromUnaccountedTree unaccounted_value
                       (child_of unaccounted_key e) of
                  Inl err \<Rightarrow> Inl err
                | Inr r \<Rightarrow>
                   remove_items items excluded
                     (dict_set unaccounted_key r unaccounted_non_excluded))
            | _ \<Rightarrow> Inl AttributeError))"
  by pat_completeness auto
termination removeExludedFoldersFromUnaccountedTree
  apply (relation "measure (\<lambda>x. case x of
      Inl (unaccounted, excluded) \<Rightarrow> tsize unaccounted
    | Inr (items, excluded, acc) \<Rightarrow> isize items)")
      apply simp
     apply (simp_all add: tsize_TDict del: tsize.simps(3))
  done

section \<open>The snapshot builder\<close>

text \<open>
  The fields of \<^verbatim>\<open>os.stat_result\<close> the program reads. The local backend returns
  \<^verbatim>\<open>st_atime\<close> and \<^verbatim>\<open>st_mtime\<close> as floating-point seconds, the Android backend as
  integers; both are numbers of seconds here. The file-type tests are those of the
  standard \<^verbatim>\<open>stat\<close> module.
\<close>

record stat_result =
  st_mode :: int
  st_size :: "int option"
  st_atime :: real
  st_mtime :: real

definition S_IFMT :: "int \<Rightarrow> int" where
  "S_IFMT mode = mode AND 61440"

definition S_IFIFO :: int where "S_IFIFO = 4096"
definition S_IFCHR :: int where "S_IFCHR = 8192"
definition S_IFDIR :: int where "S_IFDIR = 16384"
definition S_IFBLK :: int where "S_IFBLK = 24576"
definition S_IFREG :: int where "S_IFREG = 32768"
definition S_IFLNK :: int where "S_IFLNK = 40960"
definition S_IFSOCK :: int where "S_IFSOCK = 49152"

definition S_ISLNK :: "int \<Rightarrow> bool" where
  "S_ISLNK mode = (S_IFMT mode = S_IFLNK)"

definition S_ISDIR :: "int \<Rightarrow> bool" where
  "S_ISDIR mode = (S_IFMT mode = S_IFDIR)"

definition S_ISREG :: "int \<Rightarrow> bool" where
  "S_ISREG mode = (S_IFMT mode = S_IFREG)"

text \<open>\<^verbatim>\<open>int(x)\<close> on a number of seconds: truncation towards zero.\<close>

definition py_int :: "real \<Rightarrow> int" where
  "py_int x = (if 0 \<le> x then \<lfloor>x\<rfloor> else \<lceil>x\<rceil>)"

text \<open>\<^verbatim>\<open>60 * (int(t) // 60)\<close>; Python's \<^verbatim>\<open>//\<close> on integers rounds down, as \<open>div\<close> does.\<close>

definition bucket :: "real \<Rightarrow> int" where
  "bucket t = 60 * (py_int t div 60)"

text \<open>
  The methods of a \<^verbatim>\<open>FileSystem\<close> that \<^verbatim>\<open>getFilesTree\<close> calls. A listing is the list of
  pairs its generator yields, or the exception it raises; the name of a pair is absent
  when \<^verbatim>\<open>lsToStat\<close> did not capture one.
\<close>

record filesystem =
  lstat :: "string \<Rightarrow> error + stat_result"
  lstat_inDir :: "string \<Rightarrow> error + (string option \<times> stat_result) list"
  realPath :: "string \<Rightarrow> error + string"
  joinPaths :: "string \<Rightarrow> string \<Rightarrow> string"

text \<open>
  \<^verbatim>\<open>_getFilesTree\<close> and the loop over the children of a directory. A symbolic link to an
  ancestor directory makes the recursion endless when links are followed, so the depth of
  the recursion is bounded by a counter: the result \<open>None\<close> says that the bound was
  reached.
\<close>

function getFilesTree_inner ::
    "nat \<Rightarrow> filesystem \<Rightarrow> string \<Rightarrow> stat_result \<Rightarrow> bool \<Rightarrow> tree result option"
  and getFilesTree_children ::
    "nat \<Rightarrow> filesystem \<Rightarrow> string \<Rightarrow> (string option \<times> stat_result) list \<Rightarrow> bool \<Rightarrow> pydict
      \<Rightarrow> tree result option"
where
  "getFilesTree_inner 0 fs tree_root tree_root_stat followLinks = None"
| "getFilesTree_inner (Suc n) fs tree_root tree_root_stat followLinks =
     (if S_ISLNK (st_mode tree_root_stat) then
        (if \<not> followLinks
         then Some (Inr TNone, [(WARNING, ''Ignoring symlink '' @ quoted tree_root)])
         else
           (case realPath fs tree_root of
              Inl e \<Rightarrow>
                Some (if e = FileNotFoundError
                      then (Inr TNone,
                            [(DEBUG, ''Following symlink '' @ quoted tree_root),
                             (ERROR, ''Skipping dead symlink '' @ quoted tree_root)])
                      else if e = NotADirectoryError
                      then (Inr TNone,
                            [(DEBUG, ''Following symlink '' @ quoted tree_root),
                             (ERROR, ''Skipping not-a-directory symlink '' @ quoted tree_root)])
                      else (Inl e, [(DEBUG, ''Following symlink '' @ quoted tree_root)]))
            | Inr tree_root_realPath \<Rightarrow>
               (case lstat fs tree_root_realPath of
                  Inl e \<Rightarrow>
                    Some (if e = FileNotFoundError
                          then (Inr TNone,
                                [(DEBUG, ''Following symlink '' @ quoted tree_root),
                                 (ERROR, ''Skipping dead symlink '' @ quoted tree_root)])
                          else if e = NotADirectoryError
                          then (Inr TNone,
                                [(DEBUG, ''Following symlink '' @ quoted tree_root),
                                 (ERROR, ''Skipping not-a-directory symlink ''
                                    @ quoted tree_root)])
                          else (Inl e, [(DEBUG, ''Following symlink '' @ quoted tree_root)]))
                | Inr tree_root_stat_realPath \<Rightarrow>
                   (case getFilesTree_inner n fs tree_root_realPath tree_root_stat_realPath
                           followLinks of
                      None \<Rightarrow> None
                    | Some (r, l) \<Rightarrow>
                        Some (r, (DEBUG, ''Following symlink '' @ quoted tree_root) # l)))))
      else if S_ISDIR (st_mode tree_root_stat) then
        (case lstat_inDir fs tree_root of
           Inl e \<Rightarrow> Some (Inl e, [])
         | Inr entries \<Rightarrow>
            getFilesTree_children n fs tree_root entries followLinks
              [(''.'', TTuple (bucket (st_atime tree_root_stat))
                             (bucket (st_mtime tree_root_stat)))])
      else if S_ISREG (st_mode tree_root_stat) then
        Some (Inr (TTuple (bucket (st_atime tree_root_stat)) (bucket (st_mtime tree_root_stat))),
              [])
      else Some (Inl NotImplementedError, []))"
| "getFilesTree_children n fs tree_root [] followLinks tree = Some (Inr (TDict tree), [])"
| "getFilesTree_children n fs tree_root ((filename, statObject_child) # entries) followLinks tree =
     (if filename = Some ''.'' \<or> filename = Some ''..''
      then getFilesTree_children n fs tree_root entries followLinks tree
      else
        (case filename of
           None \<Rightarrow> Some (Inl TypeError, [])
         | Some name \<Rightarrow>
            (case getFilesTree_inner n fs (joinPaths fs tree_root name) statObject_child
                    followLinks of
               None \<Rightarrow> None
             | Some (Inl e, l) \<Rightarrow> Some (Inl e, l)
             | Some (Inr child, l) \<Rightarrow>
                (case getFilesTree_children n fs tree_root entries followLinks
                        (dict_set name child tree) of
                   None \<Rightarrow> None
                 | Some (r, l') \<Rightarrow> Some (r, l @ l')))))"
  by pat_completeness auto
termination getFilesTree_inner
  apply (relation "measures [\<lambda>x. case x of Inl (n, fs, r, st, fl) \<Rightarrow> n
                                        | Inr (n, fs, r, es, fl, t) \<Rightarrow> n,
                             \<lambda>x. case x of Inl (n, fs, r, st, fl) \<Rightarrow> 0
                                        | Inr (n, fs, r, es, fl, t) \<Rightarrow> Suc (length es)]")
      apply simp_all
  done

definition getFilesTree :: "nat \<Rightarrow> filesystem \<Rightarrow> string \<Rightarrow> bool \<Rightarrow> tree result option" where
  "getFilesTree n fs tree_root followLinks =
     (case lstat fs tree_root of
        Inl e \<Rightarrow> Some (Inl e, [])
      | Inr statObject \<Rightarrow> getFilesTree_inner n fs tree_root statObject followLinks)"

section \<open>The orchestrator\<close>

text \<open>
  The part of \<^verbatim>\<open>main\<close> between the two snapshots and the log of the five trees: the call
  of \<^verbatim>\<open>diffTrees\<close>, whose last argument is \<^verbatim>\<open>not args.dryRun and not args.force\<close>, and the
  five calls of \<^verbatim>\<open>pruneTree\<close>. An exception of \<^verbatim>\<open>diffTrees\<close> is not caught.
\<close>

record args =
  dryRun :: bool
  force :: bool

definition main_diffTrees ::
  "args \<Rightarrow> (string \<Rightarrow> string \<Rightarrow> bool) \<Rightarrow> tree \<Rightarrow> tree \<Rightarrow> string \<Rightarrow> string \<Rightarrow> string list
    \<Rightarrow> (string \<Rightarrow> string \<Rightarrow> string) \<Rightarrow> (string \<Rightarrow> string \<Rightarrow> string) \<Rightarrow> diff result" where
  "main_diffTrees args m filesTree_source filesTree_destination path_source path_destination
       excludePatterns joinPaths_source joinPaths_destination =
     diffTrees
       \<lparr>fnmatch = m, destinationExcludePatterns = excludePatterns,
        pathJoinFunction_source = joinPaths_source,
        pathJoinFunction_destination = joinPaths_destination,
        folderFileOverwriteError = (\<not> dryRun args \<and> \<not> force args)\<rparr>
       filesTree_source filesTree_destination path_source path_destination"

record pruned =
  tree_delete :: tree
  tree_copy :: tree
  tree_excluded_source :: tree
  tree_unaccounted_destination :: tree
  tree_excluded_destination :: tree

definition main_pruned ::
  "args \<Rightarrow> (string \<Rightarrow> string \<Rightarrow> bool) \<Rightarrow> tree \<Rightarrow> tree \<Rightarrow> string \<Rightarrow> string \<Rightarrow> string list
    \<Rightarrow> (string \<Rightarrow> string \<Rightarrow> string) \<Rightarrow> (string \<Rightarrow> string \<Rightarrow> string) \<Rightarrow> pruned result" where
  "main_pruned args m filesTree_source filesTree_destination path_source path_destination
       excludePatterns joinPaths_source joinPaths_destination =
     (case main_diffTrees args m filesTree_source filesTree_destination path_source
             path_destination excludePatterns joinPaths_source joinPaths_destination of
        (Inl e, l) \<Rightarrow> (Inl e, l)
      | (Inr r, l) \<Rightarrow>
         (Inr \<lparr>tree_delete = pruneTree (delete r),
               tree_copy = pruneTree (copy r),
               tree_excluded_source = pruneTree (excluded_source r),
               tree_unaccounted_destination = pruneTree (unaccounted_destination r),
               tree_excluded_destination = pruneTree (excluded_destination r)\<rparr>, l))"

section \<open>Concrete path functions\<close>

text \<open>
  \<^verbatim>\<open>os.path.join\<close> for two POSIX path components, and the \<^verbatim>\<open>joinPaths\<close> methods of
  \<^verbatim>\<open>LocalFileSystem\<close> and \<^verbatim>\<open>AndroidFileSystem\<close> built on it.
\<close>

definition os_path_join :: "string \<Rightarrow> string \<Rightarrow> string" where
  "os_path_join base leaf =
     (if leaf \<noteq> [] \<and> hd leaf = CHR ''/'' then leaf
      else if base = [] \<or> last base = CHR ''/'' then base @ leaf
      else base @ ''/'' @ leaf)"

definition local_joinPaths :: "string \<Rightarrow> string \<Rightarrow> string" where
  "local_joinPaths base leaf = os_path_join base leaf"

definition android_joinPaths :: "string \<Rightarrow> string \<Rightarrow> string" where
  "android_joinPaths base leaf =
     map (\<lambda>ch. if ch = CHR 0x5C then CHR ''/'' else ch) (os_path_join base leaf)"

text \<open>
  A matcher to run the differ with: shell-style matching of a name against a pattern
  made of literal characters, \<^verbatim>\<open>*\<close> and \<^verbatim>\<open>?\<close>. On such patterns it is what
  \<^verbatim>\<open>fnmatch.fnmatch\<close> computes on a POSIX host; bracket expressions are not covered,
  and every theorem below that is not about a concrete run holds for any matcher.
\<close>

fun glob :: "string \<Rightarrow> string \<Rightarrow> bool" where
  "glob [] [] = True"
| "glob [] (ch # name) = False"
| "glob (p # pat) [] = (p = CHR ''*'' \<and> glob pat [])"
| "glob (p # pat) (ch # name) =
     (if p = CHR ''*'' then glob pat (ch # name) \<or> glob (p # pat) name
      else (p = CHR ''?'' \<or> p = ch) \<and> glob pat name)"

definition fnmatch_glob :: "string \<Rightarrow> string \<Rightarrow> bool" where
  "fnmatch_glob name pat = glob pat name"

text \<open>A push from the local file system to the device with the given patterns.\<close>

definition push_ctx :: "string list \<Rightarrow> bool \<Rightarrow> ctx" where
  "push_ctx patterns overwriteError =
     \<lparr>fnmatch = fnmatch_glob,
      destinationExcludePatterns = patterns,
      pathJoinFunction_source = local_joinPaths,
      pathJoinFunction_destination = android_joinPaths,
      folderFileOverwriteError = overwriteError\<rparr>"

section \<open>Properties of the differ on file nodes\<close>

text \<open>
  C5. For two file nodes at a path that no pattern excludes, a source mtime that is not
  strictly greater than the destination mtime gives no delete and no copy entry, whatever
  the two atimes are; a strictly greater source mtime gives the destination file as the
  delete entry and the source file as the copy entry.
\<close>

theorem C5_mtime_tie_break:
  assumes "\<not> exclude c path_destination"
  shows "(m \<le> m' \<longrightarrow>
           diffTrees c (TTuple a m) (TTuple a' m') path_source path_destination =
             (Inr \<lparr>delete = TNone, copy = TNone, excluded_source = TNone,
                   unaccounted_destination = TNone, excluded_destination = TNone,
                   source_after = TTuple a m, destination_after = TTuple a' m'\<rparr>, []))
       \<and> (m > m' \<longrightarrow>
           diffTrees c (TTuple a m) (TTuple a' m') path_source path_destination =
             (Inr \<lparr>delete = TTuple a' m', copy = TTuple a m, excluded_source = TNone,
                   unaccounted_destination = TNone, excluded_destination = TNone,
                   source_after = TTuple a m, destination_after = TTuple a' m'\<rparr>, []))"
  using assms by (simp add: plain_def)

theorem C5_mtime_tie_break_witness:
  "\<not> exclude (push_ctx [''/sdcard/*.tmp''] True) ''/sdcard/a.txt''
   \<and> delete (projr (fst (diffTrees (push_ctx [''/sdcard/*.tmp''] True)
                (TTuple 0 60) (TTuple 600 60) ''/home/a.txt'' ''/sdcard/a.txt''))) = TNone
   \<and> copy (projr (fst (diffTrees (push_ctx [''/sdcard/*.tmp''] True)
                (TTuple 0 60) (TTuple 600 60) ''/home/a.txt'' ''/sdcard/a.txt''))) = TNone
   \<and> delete (projr (fst (diffTrees (push_ctx [''/sdcard/*.tmp''] True)
                (TTuple 0 120) (TTuple 600 60) ''/home/a.txt'' ''/sdcard/a.txt''))) = TTuple 600 60
   \<and> copy (projr (fst (diffTrees (push_ctx [''/sdcard/*.tmp''] True)
                (TTuple 0 120) (TTuple 600 60) ''/home/a.txt'' ''/sdcard/a.txt''))) = TTuple 0 120"
proof -
  have h: "\<not> exclude (push_ctx [''/sdcard/*.tmp''] True) ''/sdcard/a.txt''"
    by (simp add: exclude_def push_ctx_def fnmatch_glob_def)
  show ?thesis
    using h C5_mtime_tie_break [OF h, of 60 60 0 600 "''/home/a.txt''"]
      C5_mtime_tie_break [OF h, of 120 60 0 600 "''/home/a.txt''"]
    by simp
qed

section \<open>Properties of the pruning pass\<close>

text \<open>
  C6. With unaccounted = \<^verbatim>\<open>{a: {b: File}}\<close> and excluded = \<^verbatim>\<open>{a: {c: File}}\<close>,
  \<^verbatim>\<open>removeExludedFoldersFromUnaccountedTree\<close> returns \<^verbatim>\<open>{a: {b: File}}\<close>: the directory
  \<^verbatim>\<open>a\<close> and its unaccounted child \<^verbatim>\<open>b\<close> stay in the result, for any timestamps of the
  two files.
\<close>

theorem C6_ancestor_kept:
  "removeExludedFoldersFromUnaccountedTree
     (TDict [(''a'', TDict [(''b'', TTuple ab mb)])])
     (TDict [(''a'', TDict [(''c'', TTuple ac mc)])])
   = Inr (TDict [(''a'', TDict [(''b'', TTuple ab mb)])])"
  by (simp add: child_of_def)

section \<open>The end-to-end scenario\<close>

text \<open>
  C1, as the code has it. Source \<^verbatim>\<open>{a.txt: mtime 120, sub: {".": mtime 60, b.txt: mtime 180}}\<close>
  and destination \<^verbatim>\<open>{a.txt: mtime 60, old.txt: mtime 60}\<close>, both root dictionaries
  carrying their \<^verbatim>\<open>"."\<close> entry as every snapshot does, no exclusion pattern: after
  pruning, copy is \<^verbatim>\<open>{a.txt: 120, sub: {".": 60, b.txt: 180}}\<close>, unaccounted_destination
  is \<^verbatim>\<open>{old.txt: 60}\<close>, and the delete tree is \<^verbatim>\<open>{a.txt: 60}\<close>: the stale destination
  file is deleted before the newer source file is copied. This holds for any atimes,
  any root timestamps, any paths, join functions, matcher and flags.
\<close>

theorem C1_scenario:
  "main_pruned ar fm
     (TDict [(''.'', TTuple a0 m0), (''a.txt'', TTuple a1 120),
             (''sub'', TDict [(''.'', TTuple a2 60), (''b.txt'', TTuple a3 180)])])
     (TDict [(''.'', TTuple a4 m4), (''a.txt'', TTuple a5 60), (''old.txt'', TTuple a6 60)])
     path_source path_destination [] joinPaths_source joinPaths_destination
   = (Inr \<lparr>tree_delete = TDict [(''a.txt'', TTuple a5 60)],
           tree_copy = TDict [(''a.txt'', TTuple a1 120),
              (''sub'', TDict [(''.'', TTuple a2 60), (''b.txt'', TTuple a3 180)])],
           tree_excluded_source = TNone,
           tree_unaccounted_destination = TDict [(''old.txt'', TTuple a6 60)],
           tree_excluded_destination = TNone\<rparr>, [])"
  by (simp add: main_pruned_def main_diffTrees_def exclude_def child_of_def dot_def plain_def
      children_after_def)

text \<open>
  The claim's delete tree is not what the code computes: on a push of the scenario, the
  pruned delete tree is \<^verbatim>\<open>{a.txt: (60, 60)}\<close>, not \<^verbatim>\<open>None\<close>; and on the two dictionaries
  exactly as the claim writes them, without a \<^verbatim>\<open>"."\<close> entry at the root, the call raises
  \<open>KeyError\<close>.
\<close>

theorem C1_delete_tree_not_empty:
  "tree_delete (projr (fst (main_pruned \<lparr>dryRun = False, force = False\<rparr> fnmatch_glob
     (TDict [(''.'', TTuple 0 0), (''a.txt'', TTuple 120 120),
             (''sub'', TDict [(''.'', TTuple 60 60), (''b.txt'', TTuple 180 180)])])
     (TDict [(''.'', TTuple 0 0), (''a.txt'', TTuple 60 60), (''old.txt'', TTuple 60 60)])
     ''/home/src'' ''/sdcard/dst'' [] local_joinPaths android_joinPaths)))
     = TDict [(''a.txt'', TTuple 60 60)]
   \<and> tree_delete (projr (fst (main_pruned \<lparr>dryRun = False, force = False\<rparr> fnmatch_glob
     (TDict [(''.'', TTuple 0 0), (''a.txt'', TTuple 120 120),
             (''sub'', TDict [(''.'', TTuple 60 60), (''b.txt'', TTuple 180 180)])])
     (TDict [(''.'', TTuple 0 0), (''a.txt'', TTuple 60 60), (''old.txt'', TTuple 60 60)])
     ''/home/src'' ''/sdcard/dst'' [] local_joinPaths android_joinPaths)))
     \<noteq> TNone
   \<and> fst (main_pruned \<lparr>dryRun = False, force = False\<rparr> fnmatch_glob
     (TDict [(''a.txt'', TTuple 120 120),
             (''sub'', TDict [(''.'', TTuple 60 60), (''b.txt'', TTuple 180 180)])])
     (TDict [(''a.txt'', TTuple 60 60), (''old.txt'', TTuple 60 60)])
     ''/home/src'' ''/sdcard/dst'' [] local_joinPaths android_joinPaths)
     = Inl KeyError"
  by (simp add: main_pruned_def main_diffTrees_def exclude_def child_of_def dot_def plain_def
      children_after_def)

section \<open>Exclusion of a destination file\<close>

text \<open>
  C2 at three concrete calls with the pattern \<^verbatim>\<open>/sdcard/*.tmp\<close> and the destination file
  \<^verbatim>\<open>/sdcard/x.tmp\<close>. With an absent source and with a file source the destination file is
  the excluded_destination tree. With a directory source the assignment at the end of the
  directory/file branch overwrites it: excluded_destination is \<^verbatim>\<open>None\<close>. In all three
  calls unaccounted_destination is \<^verbatim>\<open>None\<close>.
\<close>

theorem C2_directory_source_loses_excluded_file:
  "exclude (push_ctx [''/sdcard/*.tmp''] False) ''/sdcard/x.tmp''
   \<and> diffTrees (push_ctx [''/sdcard/*.tmp''] False) TNone (TTuple 60 60)
        ''/home/x.tmp'' ''/sdcard/x.tmp''
     = (Inr \<lparr>delete = TNone, copy = TNone, excluded_source = TNone,
             unaccounted_destination = TNone, excluded_destination = TTuple 60 60,
             source_after = TNone, destination_after = TTuple 60 60\<rparr>, [])
   \<and> diffTrees (push_ctx [''/sdcard/*.tmp''] False) (TTuple 0 120) (TTuple 60 60)
        ''/home/x.tmp'' ''/sdcard/x.tmp''
     = (Inr \<lparr>delete = TNone, copy = TNone, excluded_source = TTuple 0 120,
             unaccounted_destination = TNone, excluded_destination = TTuple 60 60,
             source_after = TTuple 0 120, destination_after = TTuple 60 60\<rparr>, [])
   \<and> diffTrees (push_ctx [''/sdcard/*.tmp''] False) (TDict [(''.'', TTuple 0 0)]) (TTuple 60 60)
        ''/home/x.tmp'' ''/sdcard/x.tmp''
     = (Inr \<lparr>delete = TNone, copy = TDict [(''.'', TNone)],
             excluded_source = TDict [(''.'', TTuple 0 0)],
             unaccounted_destination = TNone, excluded_destination = TNone,
             source_after = TDict [(''.'', TTuple 0 0)],
             destination_after = TTuple 60 60\<rparr>, [])"
  by (simp add: exclude_def push_ctx_def fnmatch_glob_def plain_def dot_def)

section \<open>Type conflicts\<close>

text \<open>
  C4. A file source against a directory destination at a path that no pattern excludes.
  With \<^verbatim>\<open>folderFileOverwriteError\<close> set the call logs the refusal and the demand for
  \<^verbatim>\<open>--force\<close> and raises \<open>SystemExit\<close>; with the flag unset it returns the whole
  destination directory as the delete tree and the source file as the copy tree, and
  logs one warning. The destination directory is arbitrary, so \<^verbatim>\<open>{x: File}\<close> is covered.
\<close>

theorem C4_file_over_directory:
  assumes "\<not> exclude c path_destination"
  shows "(folderFileOverwriteError c \<longrightarrow>
           diffTrees c (TTuple a m) (TDict d) path_source path_destination =
             (Inl SystemExit,
              [(CRITICAL, ''Refusing to overwrite directory '' @ quoted path_destination
                  @ '' with file '' @ quoted path_source),
               (CRITICAL, ''Use --force if you are sure!''),
               (CRITICAL, ''Exiting'')]))
       \<and> (\<not> folderFileOverwriteError c \<longrightarrow>
           diffTrees c (TTuple a m) (TDict d) path_source path_destination =
             (Inr \<lparr>delete = TDict d, copy = TTuple a m, excluded_source = TNone,
                   unaccounted_destination = TDict [(''.'', TNone)],
                   excluded_destination = TDict [(''.'', TNone)],
                   source_after = TTuple a m, destination_after = TDict d\<rparr>,
              [(WARNING, ''Overwriting directory '' @ quoted path_destination
                  @ '' with file '' @ quoted path_source)]))"
  using assms by (simp add: plain_def dot_def criticalLogExit_def)

theorem C4_file_over_directory_witness:
  "\<not> exclude (push_ctx [] True) ''/sdcard/n'' \<and> \<not> exclude (push_ctx [] False) ''/sdcard/n''
   \<and> diffTrees (push_ctx [] True) (TTuple 0 60) (TDict [(''x'', TTuple 0 0)])
        ''/home/n'' ''/sdcard/n''
      = (Inl SystemExit,
         [(CRITICAL, ''Refusing to overwrite directory '' @ quoted ''/sdcard/n''
             @ '' with file '' @ quoted ''/home/n''),
          (CRITICAL, ''Use --force if you are sure!''),
          (CRITICAL, ''Exiting'')])
   \<and> diffTrees (push_ctx [] False) (TTuple 0 60) (TDict [(''x'', TTuple 0 0)])
        ''/home/n'' ''/sdcard/n''
      = (Inr \<lparr>delete = TDict [(''x'', TTuple 0 0)], copy = TTuple 0 60,
              excluded_source = TNone,
              unaccounted_destination = TDict [(''.'', TNone)],
              excluded_destination = TDict [(''.'', TNone)],
              source_after = TTuple 0 60, destination_after = TDict [(''x'', TTuple 0 0)]\<rparr>,
         [(WARNING, ''Overwriting directory '' @ quoted ''/sdcard/n''
             @ '' with file '' @ quoted ''/home/n'')])"
proof -
  have t: "\<not> exclude (push_ctx [] True) ''/sdcard/n''"
    by (simp add: exclude_def push_ctx_def)
  have f: "\<not> exclude (push_ctx [] False) ''/sdcard/n''"
    by (simp add: exclude_def push_ctx_def)
  have ft: "folderFileOverwriteError (push_ctx [] True)"
    and ff: "\<not> folderFileOverwriteError (push_ctx [] False)"
    by (simp_all add: push_ctx_def)
  show ?thesis
    using t f ft ff
      C4_file_over_directory [OF t, of 0 60 "[(''x'', TTuple 0 0)]" "''/home/n''"]
      C4_file_over_directory [OF f, of 0 60 "[(''x'', TTuple 0 0)]" "''/home/n''"]
    by simp
qed




section \<open>Quantization of timestamps\<close>

lemma bucket_nonneg: "0 \<le> t \<Longrightarrow> bucket t = 60 * \<lfloor>t / 60\<rfloor>"
  using floor_divide_real_eq_div [of 60 t] by (simp add: bucket_def py_int_def)

lemma bucket_int: "t \<in> \<int> \<Longrightarrow> bucket t = 60 * \<lfloor>t / 60\<rfloor>"
proof -
  assume "t \<in> \<int>"
  then obtain k where k: "t = of_int k" by (auto elim: Ints_cases)
  have "py_int t = k" by (simp add: py_int_def k)
  moreover have "\<lfloor>t / 60\<rfloor> = k div 60"
    using floor_divide_of_int_eq [of k 60, where ?'a = real] by (simp add: k)
  ultimately show ?thesis by (simp add: bucket_def)
qed

lemma dict_get_dict_set: "k \<noteq> k' \<Longrightarrow> dict_get k (dict_set k' v d) = dict_get k d"
  by (induction d) auto

lemma children_keep_dot:
  "getFilesTree_children n fs tree_root es fl tree = Some (Inr t, l)
   \<Longrightarrow> \<exists>d. t = TDict d \<and> dict_get ''.'' d = dict_get ''.'' tree"
proof (induction es arbitrary: tree l)
  case Nil
  then show ?case by auto
next
  case (Cons e es)
  obtain filename st where e: "e = (filename, st)" by (cases e)
  show ?case
  proof (cases "filename = Some ''.'' \<or> filename = Some ''..''")
    case True
    with Cons e show ?thesis by simp
  next
    case False
    with Cons.prems e obtain name child l1 l2 where name: "filename = Some name"
      and rest: "getFilesTree_children n fs tree_root es fl (dict_set name child tree) = Some (Inr t, l2)"
      by (auto split: option.splits sum.splits prod.splits)
    from False name have "''.'' \<noteq> name" by auto
    with Cons.IH [OF rest] show ?thesis by (simp add: dict_get_dict_set)
  qed
qed

lemma S_ISREG_not: "S_ISREG m \<Longrightarrow> \<not> S_ISLNK m \<and> \<not> S_ISDIR m"
  by (simp add: S_ISREG_def S_ISLNK_def S_ISDIR_def S_IFREG_def S_IFLNK_def S_IFDIR_def)

lemma S_ISDIR_not: "S_ISDIR m \<Longrightarrow> \<not> S_ISLNK m"
  by (simp add: S_ISREG_def S_ISLNK_def S_ISDIR_def S_IFREG_def S_IFLNK_def S_IFDIR_def)

text \<open>
  A local directory \<^verbatim>\<open>/home/src\<close> holding one regular file, to run the snapshot builder on.
\<close>

definition example_fs :: filesystem where
  "example_fs =
     \<lparr>lstat = (\<lambda>path. if path = ''/home/src''
                  then Inr \<lparr>st_mode = 16877, st_size = None, st_atime = 7, st_mtime = 125\<rparr>
                  else Inl FileNotFoundError),
      lstat_inDir = (\<lambda>path. if path = ''/home/src''
                  then Inr [(Some ''a.txt'',
                             \<lparr>st_mode = 33188, st_size = Some 5, st_atime = 100.5, st_mtime = 119\<rparr>)]
                  else Inl NotADirectoryError),
      realPath = (\<lambda>path. Inr path),
      joinPaths = local_joinPaths\<rparr>"

text \<open>
  C7, as the code has it. A timestamp \<open>t\<close> is quantized to \<^verbatim>\<open>60 * (int(t) // 60)\<close>, which is
  \<open>60 * \<lfloor>t / 60\<rfloor>\<close> for every \<open>t\<close> that is not negative or is a whole number of seconds;
  100 and 119 both give 60. The snapshot of a regular file is the pair of the quantized
  atime and mtime, and the \<^verbatim>\<open>"."\<close> entry of the snapshot of a directory is that pair of the
  directory. Two files with raw mtimes 100 and 119 are up to date in both directions: no
  delete and no copy entry.
\<close>

theorem C7_quantization:
  "(0 \<le> t \<or> t \<in> \<int> \<longrightarrow> bucket t = 60 * \<lfloor>t / 60\<rfloor>)
   \<and> bucket 100 = 60 \<and> bucket 119 = 60
   \<and> (S_ISREG (st_mode st) \<longrightarrow>
        getFilesTree_inner (Suc n) fs tree_root st followLinks =
          Some (Inr (TTuple (bucket (st_atime st)) (bucket (st_mtime st))), []))
   \<and> (S_ISDIR (st_mode st) \<longrightarrow>
        (\<forall>tr l. getFilesTree_inner (Suc n) fs tree_root st followLinks = Some (Inr tr, l) \<longrightarrow>
           (\<exists>d. tr = TDict d
              \<and> dict_get ''.'' d = Some (TTuple (bucket (st_atime st)) (bucket (st_mtime st))))))
   \<and> (\<not> exclude c path_destination \<longrightarrow>
        diffTrees c (TTuple a (bucket 100)) (TTuple a' (bucket 119)) path_source path_destination =
          (Inr \<lparr>delete = TNone, copy = TNone, excluded_source = TNone,
                unaccounted_destination = TNone, excluded_destination = TNone,
                source_after = TTuple a 60, destination_after = TTuple a' 60\<rparr>, [])
        \<and> diffTrees c (TTuple a (bucket 119)) (TTuple a' (bucket 100)) path_source path_destination =
          (Inr \<lparr>delete = TNone, copy = TNone, excluded_source = TNone,
                unaccounted_destination = TNone, excluded_destination = TNone,
                source_after = TTuple a 60, destination_after = TTuple a' 60\<rparr>, []))"
proof -
  have b: "bucket 100 = 60" "bucket 119 = 60"
    by (simp_all add: bucket_def py_int_def)
  have q: "0 \<le> t \<or> t \<in> \<int> \<longrightarrow> bucket t = 60 * \<lfloor>t / 60\<rfloor>"
    using bucket_nonneg [of t] bucket_int [of t] by blast
  have f: "S_ISREG (st_mode st) \<longrightarrow>
        getFilesTree_inner (Suc n) fs tree_root st followLinks =
          Some (Inr (TTuple (bucket (st_atime st)) (bucket (st_mtime st))), [])"
    using S_ISREG_not [of "st_mode st"] by simp
  have d: "S_ISDIR (st_mode st) \<longrightarrow>
        (\<forall>tr l. getFilesTree_inner (Suc n) fs tree_root st followLinks = Some (Inr tr, l) \<longrightarrow>
           (\<exists>d. tr = TDict d
              \<and> dict_get ''.'' d = Some (TTuple (bucket (st_atime st)) (bucket (st_mtime st)))))"
  proof (intro impI allI)
    fix tr l
    assume dir: "S_ISDIR (st_mode st)"
      and r: "getFilesTree_inner (Suc n) fs tree_root st followLinks = Some (Inr tr, l)"
    from dir r S_ISDIR_not [OF dir] obtain es where
      "getFilesTree_children n fs tree_root es followLinks
         [(''.'', TTuple (bucket (st_atime st)) (bucket (st_mtime st)))] = Some (Inr tr, l)"
      by (auto split: sum.splits)
    from children_keep_dot [OF this]
    show "\<exists>d. tr = TDict d
              \<and> dict_get ''.'' d = Some (TTuple (bucket (st_atime st)) (bucket (st_mtime st)))"
      by simp
  qed
  show ?thesis
    using b q f d by (simp add: plain_def)
qed

text \<open>
  For a negative timestamp with a fraction \<^verbatim>\<open>int\<close> rounds towards zero:
  half a second before the epoch is quantized to 0, not to \<open>60 * \<lfloor>t / 60\<rfloor> = - 60\<close>.
\<close>

theorem C7_negative_fraction:
  "bucket (- 1 / 2) = 0 \<and> 60 * \<lfloor>(- 1 / 2) / (60 :: real)\<rfloor> = - 60"
  by (simp add: bucket_def py_int_def)

theorem C7_quantization_witness:
  "(0 :: real) \<le> 100.5 \<and> bucket 100.5 = 60 * \<lfloor>(100.5 :: real) / 60\<rfloor>
   \<and> bucket 100 = 60 \<and> bucket 119 = 60
   \<and> S_ISREG (st_mode \<lparr>st_mode = 33188, st_size = Some 5, st_atime = 100.5, st_mtime = 119\<rparr>)
   \<and> getFilesTree_inner (Suc 0) example_fs ''/home/src/a.txt''
        \<lparr>st_mode = 33188, st_size = Some 5, st_atime = 100.5, st_mtime = 119\<rparr> False
      = Some (Inr (TTuple 60 60), [])
   \<and> S_ISDIR (st_mode \<lparr>st_mode = 16877, st_size = None, st_atime = 7, st_mtime = 125\<rparr>)
   \<and> getFilesTree (Suc (Suc 0)) example_fs ''/home/src'' False
      = Some (Inr (TDict [(''.'', TTuple 0 120), (''a.txt'', TTuple 60 60)]), [])
   \<and> \<not> exclude (push_ctx [] True) ''/sdcard/a.txt''
   \<and> diffTrees (push_ctx [] True) (TTuple 0 (bucket 100)) (TTuple 0 (bucket 119))
        ''/home/a.txt'' ''/sdcard/a.txt''
      = (Inr \<lparr>delete = TNone, copy = TNone, excluded_source = TNone,
              unaccounted_destination = TNone, excluded_destination = TNone,
              source_after = TTuple 0 60, destination_after = TTuple 0 60\<rparr>, [])"
proof -
  have t: "(0 :: real) \<le> 100.5" by simp
  have reg: "S_ISREG (st_mode \<lparr>st_mode = 33188, st_size = Some 5, st_atime = 100.5, st_mtime = 119\<rparr>)"
    by (simp add: S_ISREG_def S_IFMT_def S_IFREG_def)
  have dir: "S_ISDIR (st_mode \<lparr>st_mode = 16877, st_size = None, st_atime = 7, st_mtime = 125\<rparr>)"
    by (simp add: S_ISDIR_def S_IFMT_def S_IFDIR_def)
  have ex: "\<not> exclude (push_ctx [] True) ''/sdcard/a.txt''"
    by (simp add: exclude_def push_ctx_def)
  have run: "getFilesTree (Suc (Suc 0)) example_fs ''/home/src'' False
      = Some (Inr (TDict [(''.'', TTuple 0 120), (''a.txt'', TTuple 60 60)]), [])"
    by (simp add: getFilesTree_def example_fs_def S_ISLNK_def S_ISDIR_def S_ISREG_def S_IFMT_def
        S_IFLNK_def S_IFDIR_def S_IFREG_def bucket_def py_int_def local_joinPaths_def
        os_path_join_def)
  note T = C7_quantization [where t = "100.5" and c = "push_ctx [] True"
        and path_destination = "''/sdcard/a.txt''" and path_source = "''/home/a.txt''"
        and a = 0 and a' = 0 and n = 0 and fs = example_fs
        and tree_root = "''/home/src/a.txt''" and followLinks = False
        and st = "\<lparr>st_mode = 33188, st_size = Some 5, st_atime = 100.5, st_mtime = 119\<rparr>"]
  have q: "bucket 100.5 = 60 * \<lfloor>(100.5 :: real) / 60\<rfloor>"
    using T t by blast
  have b: "bucket 100 = 60" "bucket 119 = 60"
    using T by blast+
  have r: "getFilesTree_inner (Suc 0) example_fs ''/home/src/a.txt''
        \<lparr>st_mode = 33188, st_size = Some 5, st_atime = 100.5, st_mtime = 119\<rparr> False
      = Some (Inr (TTuple
           (bucket (st_atime \<lparr>st_mode = 33188, st_size = Some 5, st_atime = 100.5, st_mtime = 119\<rparr>))
           (bucket (st_mtime \<lparr>st_mode = 33188, st_size = Some 5, st_atime = 100.5, st_mtime = 119\<rparr>))),
         [])"
    using T reg by blast
  have v: "TTuple
           (bucket (st_atime \<lparr>st_mode = 33188, st_size = Some 5, st_atime = 100.5, st_mtime = 119\<rparr>))
           (bucket (st_mtime \<lparr>st_mode = 33188, st_size = Some 5, st_atime = 100.5, st_mtime = 119\<rparr>))
         = TTuple 60 60"
    by (simp add: bucket_def py_int_def)
  have d: "diffTrees (push_ctx [] True) (TTuple 0 (bucket 100)) (TTuple 0 (bucket 119))
        ''/home/a.txt'' ''/sdcard/a.txt''
      = (Inr \<lparr>delete = TNone, copy = TNone, excluded_source = TNone,
              unaccounted_destination = TNone, excluded_destination = TNone,
              source_after = TTuple 0 60, destination_after = TTuple 0 60\<rparr>, [])"
    using T ex by blast
  show ?thesis
    using t q b reg r [unfolded v] dir run ex d by (intro conjI)
qed

section \<open>The self-entry of a directory\<close>

text \<open>
  A tree in which every dictionary has each key once (as a Python \<^verbatim>\<open>dict\<close> does) and has
  the key \<^verbatim>\<open>"."\<close>.
\<close>

fun wf_tree :: "tree \<Rightarrow> bool" where
  "wf_tree TNone = True"
| "wf_tree (TTuple a m) = True"
| "wf_tree (TDict d) =
     (distinct (map fst d) \<and> dict_get ''.'' d \<noteq> None \<and> (\<forall>kv \<in> set d. wf_tree (snd kv)))"

definition wf_items :: "pydict \<Rightarrow> bool" where
  "wf_items d = (\<forall>kv \<in> set d. wf_tree (snd kv))"

lemma set_dict_del: "set (dict_del k d) \<subseteq> set d"
  by (induction d) (auto split: if_splits)

lemma set_pop_keys: "set (pop_keys ks d) \<subseteq> set d"
proof (induction ks arbitrary: d)
  case Nil
  show ?case by simp
next
  case (Cons k ks)
  have "set (pop_keys ks (dict_del k d)) \<subseteq> set (dict_del k d)" by (rule Cons.IH)
  with set_dict_del [of k d] show ?case by auto
qed

lemma dict_get_in_set: "dict_get k d = Some v \<Longrightarrow> (k, v) \<in> set d"
  by (induction d) (auto split: if_splits)

lemma dict_get_dict_del: "k \<noteq> k' \<Longrightarrow> dict_get k (dict_del k' d) = dict_get k d"
  by (induction d) auto

lemma dict_get_pop_keys: "k \<notin> set ks \<Longrightarrow> dict_get k (pop_keys ks d) = dict_get k d"
  by (induction ks arbitrary: d) (auto simp: dict_get_dict_del)

lemma dict_get_None_dict_del: "dict_get k d = None \<Longrightarrow> dict_get k (dict_del k' d) = None"
  by (induction d) auto

lemma dict_get_None_pop_keys: "dict_get k d = None \<Longrightarrow> dict_get k (pop_keys ks d) = None"
  by (induction ks arbitrary: d) (auto simp: dict_get_None_dict_del)

lemma keys_dict_del: "distinct (map fst d) \<Longrightarrow> k \<notin> fst ` set (dict_del k d)"
proof (induction d)
  case Nil
  show ?case by simp
next
  case (Cons kv d)
  obtain k' v where kv: "kv = (k', v)" by (cases kv)
  show ?case
  proof (cases "k = k'")
    case True
    with Cons.prems kv show ?thesis by simp
  next
    case False
    with Cons kv show ?thesis by simp
  qed
qed

lemma wf_items_dict_del: "wf_items d \<Longrightarrow> wf_items (dict_del k d)"
  using set_dict_del [of k d] by (auto simp: wf_items_def)

lemma wf_items_pop_keys: "wf_items d \<Longrightarrow> wf_items (pop_keys ks d)"
  using set_pop_keys [of ks d] by (auto simp: wf_items_def)

lemma wf_child_of: "wf_items d \<Longrightarrow> wf_tree (child_of k d)"
  by (auto simp: wf_items_def child_of_def dest!: dict_get_in_set split: option.splits)

lemma wf_items_Cons: "wf_items ((k, v) # d) = (wf_tree v \<and> wf_items d)"
  by (simp add: wf_items_def)

lemma wf_tree_TDict: "wf_tree (TDict d) = (distinct (map fst d) \<and> dict_get ''.'' d \<noteq> None \<and> wf_items d)"
  by (simp add: wf_items_def)

lemma never_KeyError:
  shows "wf_tree s \<Longrightarrow> wf_tree d \<Longrightarrow> fst (diffTrees c s d ps pd) \<noteq> Inl KeyError"
    and "wf_items items \<Longrightarrow> fst (loop_destination c items ps pd) \<noteq> Inl KeyError"
    and "wf_items items \<Longrightarrow> fst (loop_source c items ps pd) \<noteq> Inl KeyError"
    and "wf_items items \<Longrightarrow> wf_items dst \<Longrightarrow> fst (loop_both c items dst ps pd) \<noteq> Inl KeyError"
proof (induction c s d ps pd and c items ps pd and c items ps pd and c items dst ps pd
    rule: diffTrees_loop_destination_loop_source_loop_both.induct)
  case (9 c s d ps pd)
  from "9.prems" have ws: "wf_items s" and wd: "wf_items d" and ds: "distinct (map fst s)"
    and dots: "dict_get ''.'' s \<noteq> None" and dotd: "dict_get ''.'' d \<noteq> None"
    by (simp_all add: wf_tree_TDict del: wf_tree.simps)
  show ?case
  proof (cases "exclude c pd")
    case True
    then show ?thesis by (simp add: plain_def)
  next
    case ne: False
    from dots obtain self where Some: "dict_get ''.'' s = Some self" by auto
    obtain x l where lb: "loop_both c (dict_del ''.'' s) d ps pd = (x, l)"
      by (cases "loop_both c (dict_del ''.'' s) d ps pd")
    have x: "x \<noteq> Inl KeyError"
      using "9.IH"(1) [OF ne Some wf_items_dict_del [OF ws] wd] lb by simp
    show ?thesis
    proof (cases x)
      case (Inl e)
      with ne Some lb x show ?thesis by simp
    next
      case (Inr rs)
      let ?d' = "pop_keys (map fst (dict_del ''.'' s)) d"
      have "''.'' \<notin> set (map fst (dict_del ''.'' s))"
        using keys_dict_del [OF ds, of "''.''"] by simp
      then have "dict_get ''.'' ?d' = dict_get ''.'' d"
        by (rule dict_get_pop_keys)
      with dotd obtain self' where s': "dict_get ''.'' ?d' = Some self'" by auto
      have "fst (loop_destination c (dict_del ''.'' ?d') ps pd) \<noteq> Inl KeyError"
        using "9.IH"(2) [OF ne Some lb [symmetric] Inr refl s'
            wf_items_dict_del [OF wf_items_pop_keys [OF wd]]] .
      with ne Some lb Inr s' show ?thesis
        by (auto simp: Let_def split: prod.splits sum.splits)
    qed
  qed
next
  case (15 c key val items destination ps pd)
  then show ?case
    by (auto simp: wf_items_Cons wf_child_of wf_items_dict_del split: prod.splits sum.splits)
qed (auto simp: plain_def criticalLogExit_def wf_items_Cons wf_tree_TDict wf_items_dict_del
       simp del: wf_tree.simps(3)
       split: prod.splits sum.splits option.splits if_splits)

text \<open>
  What the snapshot builder returns: every dictionary has each key once and a \<^verbatim>\<open>"."\<close>
  entry that is a pair of whole minutes, and every file is a pair of whole minutes.
\<close>

fun snapshot_tree :: "tree \<Rightarrow> bool" where
  "snapshot_tree TNone = True"
| "snapshot_tree (TTuple a m) = (60 dvd a \<and> 60 dvd m)"
| "snapshot_tree (TDict d) =
     (distinct (map fst d)
      \<and> (case dict_get ''.'' d of Some (TTuple a m) \<Rightarrow> 60 dvd a \<and> 60 dvd m | _ \<Rightarrow> False)
      \<and> (\<forall>kv \<in> set d. snapshot_tree (snd kv)))"

definition snapshot_items :: "pydict \<Rightarrow> bool" where
  "snapshot_items d = (\<forall>kv \<in> set d. snapshot_tree (snd kv))"

definition self_entry :: "pydict \<Rightarrow> bool" where
  "self_entry d = (case dict_get ''.'' d of Some (TTuple a m) \<Rightarrow> 60 dvd a \<and> 60 dvd m | _ \<Rightarrow> False)"

lemma snapshot_tree_TDict:
  "snapshot_tree (TDict d) = (distinct (map fst d) \<and> self_entry d \<and> snapshot_items d)"
  by (simp add: snapshot_items_def self_entry_def)

lemma snapshot_tree_wf: "snapshot_tree t \<Longrightarrow> wf_tree t"
proof (induction t)
  case TNone
  show ?case by simp
next
  case (TTuple a m)
  show ?case by simp
next
  case (TDict d)
  have "wf_tree (snd kv)" if "kv \<in> set d" for kv
  proof -
    obtain k v where kv: "kv = (k, v)" by (cases kv)
    from that TDict.prems have "snapshot_tree v" by (auto simp: kv)
    moreover from that kv have "v \<in> Basic_BNFs.snds kv" by simp
    ultimately show ?thesis using TDict.IH [OF that] kv by simp
  qed
  with TDict.prems show ?case by (auto split: option.splits)
qed

lemma set_dict_set: "set (dict_set k v d) \<subseteq> insert (k, v) (set d)"
  by (induction d) (auto split: if_splits)

lemma keys_dict_set: "fst ` set (dict_set k v d) = insert k (fst ` set d)"
proof (induction d)
  case Nil
  show ?case by simp
next
  case (Cons kv d)
  obtain k' v' where kv: "kv = (k', v')" by (cases kv)
  show ?case
  proof (cases "k = k'")
    case True
    with kv show ?thesis by simp
  next
    case False
    with kv Cons.IH show ?thesis by (simp add: insert_commute)
  qed
qed

lemma distinct_dict_set: "distinct (map fst d) \<Longrightarrow> distinct (map fst (dict_set k v d))"
proof (induction d)
  case Nil
  show ?case by simp
next
  case (Cons kv d)
  obtain k' v' where kv: "kv = (k', v')" by (cases kv)
  show ?case
  proof (cases "k = k'")
    case True
    with Cons.prems kv show ?thesis by simp
  next
    case False
    with Cons kv keys_dict_set [of k v d] show ?thesis by auto
  qed
qed

lemma snapshot_items_dict_set:
  "snapshot_tree v \<Longrightarrow> snapshot_items d \<Longrightarrow> snapshot_items (dict_set k v d)"
  using set_dict_set [of k v d] by (auto simp: snapshot_items_def)

lemma self_entry_dict_set: "k \<noteq> ''.'' \<Longrightarrow> self_entry (dict_set k v d) = self_entry d"
  by (simp add: self_entry_def dict_get_dict_set)

lemma dvd_bucket: "60 dvd bucket t"
  by (simp add: bucket_def)

lemma getFilesTree_inner_snapshot:
  shows "getFilesTree_inner n fs tree_root st fl = Some (Inr t, l) \<Longrightarrow> snapshot_tree t"
    and "getFilesTree_children n fs tree_root es fl tree = Some (Inr t, l) \<Longrightarrow>
           distinct (map fst tree) \<Longrightarrow> self_entry tree \<Longrightarrow> snapshot_items tree \<Longrightarrow>
           snapshot_tree t"
proof (induction n fs tree_root st fl and n fs tree_root es fl tree arbitrary: t l and t l
    rule: getFilesTree_inner_getFilesTree_children.induct)
  case (1 fs tree_root tree_root_stat followLinks)
  then show ?case by simp
next
  case (2 n fs tree_root st fl)
  show ?case
  proof (cases "S_ISLNK (st_mode st)")
    case True
    with "2.prems" "2.IH"(1) show ?thesis
      by (auto split: if_splits sum.splits option.splits prod.splits)
  next
    case lnk: False
    show ?thesis
    proof (cases "S_ISDIR (st_mode st)")
      case True
      with lnk "2.prems" obtain es where es: "lstat_inDir fs tree_root = Inr es"
        and r: "getFilesTree_children n fs tree_root es fl
           [(''.'', TTuple (bucket (st_atime st)) (bucket (st_mtime st)))] = Some (Inr t, l)"
        by (auto split: sum.splits)
      show ?thesis
        by (rule "2.IH"(2) [OF lnk True es r])
          (simp_all add: self_entry_def snapshot_items_def dvd_bucket)
    next
      case False
      with lnk "2.prems" show ?thesis
        by (auto simp: dvd_bucket split: if_splits)
    qed
  qed
next
  case (3 n fs tree_root followLinks tree)
  then show ?case by (auto simp: snapshot_tree_TDict simp del: snapshot_tree.simps(3))
next
  case (4 n fs tree_root filename st es fl tree)
  show ?case
  proof (cases "filename = Some ''.'' \<or> filename = Some ''..''")
    case True
    with "4.prems" "4.IH"(1) show ?thesis by simp
  next
    case False
    with "4.prems"(1) obtain name child l1 l2 where name: "filename = Some name"
      and c: "getFilesTree_inner n fs (joinPaths fs tree_root name) st fl = Some (Inr child, l1)"
      and rest: "getFilesTree_children n fs tree_root es fl (dict_set name child tree)
                   = Some (Inr t, l2)"
      by (auto split: option.splits sum.splits prod.splits)
    from False name have nd: "name \<noteq> ''.''" by auto
    have sc: "snapshot_tree child"
      by (rule "4.IH"(2) [OF False name c])
    show ?thesis
      by (rule "4.IH"(3) [OF False name c refl refl rest])
        (use "4.prems" nd sc in \<open>simp_all add: distinct_dict_set self_entry_dict_set
           snapshot_items_dict_set\<close>)
  qed
qed

end
